theory Spec2Isabelle
  imports Main
begin

section \<open>Sign-in with SRP\<close>

subsection \<open>Data\<close>

text \<open>
  Client metadata and challenge parameters are string-to-string bags; they are kept
  as association lists, in the order the caller or the service gave them.
\<close>

type_synonym ClientMetadata = "(string \<times> string) list"

type_synonym ChallengeParameters = "(string \<times> string) list"

datatype AuthValidationErrorCode = EmptySignInUsername | EmptySignInPassword

text \<open>
  The challenge kinds the dispatcher knows, as the data model lists them. \<open>Done\<close> is
  not among them: it is a step of a result only.
\<close>

datatype ChallengeName = PasswordVerifier | CustomChallenge | MfaCode | NewPasswordRequired

datatype AuthSignInStep = CONFIRM_SIGN_IN ChallengeName | DONE

record AuthNextSignInStep =
  signInStep :: AuthSignInStep
  additionalInfo :: "ChallengeParameters option"

record AuthSignInResult =
  isSignedIn :: bool
  nextStep :: AuthNextSignInStep

text \<open>
  Everything that can be thrown inside \<open>signInWithSRP\<close>. \<open>NamedError n\<close> is any
  error value the remote phase raises, known to the code by its \<open>name\<close> only.
\<close>

datatype thrown =
    ValidationError AuthValidationErrorCode
  | UnrecognizedChallengeError "string option"
  | NamedError string

fun errorName :: "thrown \<Rightarrow> string" where
  "errorName (ValidationError EmptySignInUsername) = ''EmptySignInUsername''"
| "errorName (ValidationError EmptySignInPassword) = ''EmptySignInPassword''"
| "errorName (UnrecognizedChallengeError c) = ''UnrecognizedChallengeError''"
| "errorName (NamedError n) = n"

record AuthenticationResultType =
  AccessToken :: string
  IdToken :: string
  RefreshToken :: string

text \<open>
  What \<open>handleUserSRPAuthFlow\<close> resolves to. Every field may be undefined; the
  challenge name is the string the service sent (the source only casts it).
\<close>

record AuthFlowOutput =
  ChallengeName :: "string option"
  ChallengeParameters :: "ChallengeParameters option"
  AuthenticationResult :: "AuthenticationResultType option"
  Session :: "string option"

record ServiceOptions =
  clientMetadata :: "ClientMetadata option"

record CognitoSignInOptions =
  serviceOptions :: "ServiceOptions option"

text \<open>
  The request. \<open>None\<close> stands for an undefined field; the fields carry a prefix
  because the stored state has a \<open>username\<close> of its own.
\<close>

record SignInRequest =
  reqUsername :: "string option"
  reqPassword :: "string option"
  reqOptions :: "CognitoSignInOptions option"

record AmplifyConfig =
  configClientMetadata :: "ClientMetadata option"

record SignInState =
  signInSession :: "string option"
  username :: string
  challengeName :: "string option"

text \<open>The arguments of one call of the remote flow, kept to observe the network.\<close>

record FlowCall =
  callUsername :: string
  callPassword :: string
  callClientMetadata :: "ClientMetadata option"

text \<open>
  How a failure of \<open>getSignInResult\<close> reaches its caller. \<open>signInWithSRP\<close> returns
  the call without awaiting it, so its \<open>catch\<close> block sees a throw made at the call
  and does not see the rejection of a returned promise.
\<close>

datatype failureMode = ThrowsAtCall | RejectsLater

text \<open>
  The collaborators of \<open>signInWithSRP\<close> whose code is outside the sources at hand
  are parameters: the remote flow (which either throws or resolves), the service-error
  assertion (\<open>Some e\<close>: it throws \<open>e\<close>), the error classifier, the table of the
  parameter keys that matter for each challenge kind, and the way \<open>getSignInResult\<close>
  fails.
\<close>

record SignInHelpers =
  handleUserSRPAuthFlow ::
    "string \<Rightarrow> string \<Rightarrow> ClientMetadata option \<Rightarrow> thrown + AuthFlowOutput"
  assertServiceError :: "thrown \<Rightarrow> thrown option"
  getSignInResultFromError :: "string \<Rightarrow> AuthSignInResult option"
  relevantParameters :: "ChallengeName \<Rightarrow> string list"
  getSignInResultFailure :: failureMode

record SignInOutcome =
  outcome :: "thrown + AuthSignInResult"
  storeAfter :: "SignInState option"
  flowCalls :: "FlowCall list"

subsection \<open>Helpers\<close>

text \<open>JavaScript truthiness of an optional string: defined and not empty.\<close>

fun truthy :: "string option \<Rightarrow> bool" where
  "truthy None = False"
| "truthy (Some s) = (s \<noteq> [])"

text \<open>The string a truthy value is; only read after the assertion on it has passed.\<close>

fun stringOf :: "string option \<Rightarrow> string" where
  "stringOf None = []"
| "stringOf (Some s) = s"

text \<open>\<open>a || b\<close> on optional objects: an object is always truthy.\<close>

fun orElse :: "'a option \<Rightarrow> 'a option \<Rightarrow> 'a option" where
  "orElse (Some a) b = Some a"
| "orElse None b = b"

text \<open>\<open>signInRequest.options?.serviceOptions?.clientMetadata\<close>\<close>

definition requestClientMetadata :: "SignInRequest \<Rightarrow> ClientMetadata option" where
  "requestClientMetadata signInRequest =
     (case reqOptions signInRequest of
        None \<Rightarrow> None
      | Some opts \<Rightarrow>
          (case serviceOptions opts of
             None \<Rightarrow> None
           | Some so \<Rightarrow> clientMetadata so))"

text \<open>
  Modelled from the spec: \<open>assertValidationError\<close> (errors/utils) is not among the
  sources. A failed assertion raises the validation error of the given code, a distinct
  one per field; \<open>Some e\<close> is the throw.
\<close>

definition assertValidationError :: "bool \<Rightarrow> AuthValidationErrorCode \<Rightarrow> thrown option" where
  "assertValidationError assertion code =
     (if assertion then None else Some (ValidationError code))"

text \<open>
  Modelled from the spec: the session state store (utils/signInStore) is not among the
  sources. It holds at most one in-progress session; setting overwrites it, cleaning
  leaves it absent.
\<close>

definition setActiveSignInState :: "SignInState \<Rightarrow> SignInState option \<Rightarrow> SignInState option" where
  "setActiveSignInState s store = Some s"

definition cleanActiveSignInState :: "SignInState option \<Rightarrow> SignInState option" where
  "cleanActiveSignInState store = None"

text \<open>
  Modelled from the spec: \<open>getSignInResult\<close> (utils/signInHelpers) is not among the
  sources. A named challenge gives \<open>isSignedIn = false\<close> and that challenge as the next
  step, its parameters filtered to the keys relevant to the kind; a name that is not a
  known challenge fails closed with \<open>UnrecognizedChallengeError\<close>. The names are the
  ones the data model lists. Whether the failure is a throw or a rejection is not said;
  it is the \<open>getSignInResultFailure\<close> of the helpers.
\<close>

definition challengeOfName :: "string \<Rightarrow> ChallengeName option" where
  "challengeOfName n =
     (if n = ''PasswordVerifier'' then Some PasswordVerifier
      else if n = ''CustomChallenge'' then Some CustomChallenge
      else if n = ''MfaCode'' then Some MfaCode
      else if n = ''NewPasswordRequired'' then Some NewPasswordRequired
      else None)"

definition filterParameters :: "string list \<Rightarrow> ChallengeParameters \<Rightarrow> ChallengeParameters" where
  "filterParameters keys ps = filter (\<lambda>kv. fst kv \<in> set keys) ps"

definition getSignInResult ::
  "(ChallengeName \<Rightarrow> string list) \<Rightarrow> string option \<Rightarrow> ChallengeParameters option
     \<Rightarrow> thrown + AuthSignInResult" where
  "getSignInResult relevant cn cps =
     (case cn of
        None \<Rightarrow> Inl (UnrecognizedChallengeError None)
      | Some n \<Rightarrow>
          (case challengeOfName n of
             None \<Rightarrow> Inl (UnrecognizedChallengeError (Some n))
           | Some c \<Rightarrow>
               Inr \<lparr>isSignedIn = False,
                    nextStep = \<lparr>signInStep = CONFIRM_SIGN_IN c,
                                additionalInfo = map_option (filterParameters (relevant c)) cps\<rparr>\<rparr>))"

subsection \<open>signInWithSRP\<close>

text \<open>
  The \<open>catch\<close> block: the store is cleaned first; then the assertion may throw an
  error of its own; then the error name is classified, and a result is returned if
  there is one; otherwise the caught error is thrown again.
\<close>

definition catchBlock ::
  "SignInHelpers \<Rightarrow> thrown \<Rightarrow> SignInState option \<Rightarrow> FlowCall list \<Rightarrow> SignInOutcome" where
  "catchBlock h error store calls =
     (let store' = cleanActiveSignInState store in
      case assertServiceError h error of
        Some e' \<Rightarrow> \<lparr>outcome = Inl e', storeAfter = store', flowCalls = calls\<rparr>
      | None \<Rightarrow>
          (case getSignInResultFromError h (errorName error) of
             Some result \<Rightarrow> \<lparr>outcome = Inr result, storeAfter = store', flowCalls = calls\<rparr>
           | None \<Rightarrow> \<lparr>outcome = Inl error, storeAfter = store', flowCalls = calls\<rparr>))"

text \<open>
  The \<open>try\<close> block, entered with both assertions passed. The flow is awaited, so
  its failure is always caught. A failure of \<open>getSignInResult\<close> is caught when thrown
  at the call; a rejection passes the \<open>catch\<close> block by and becomes the rejection of
  \<open>signInWithSRP\<close> itself, with the store as it was set.
\<close>

definition tryBlock ::
  "SignInHelpers \<Rightarrow> string \<Rightarrow> string \<Rightarrow> ClientMetadata option \<Rightarrow> SignInState option
     \<Rightarrow> SignInOutcome" where
  "tryBlock h u p clientMetaData store =
     (let calls = [\<lparr>callUsername = u, callPassword = p, callClientMetadata = clientMetaData\<rparr>] in
      case handleUserSRPAuthFlow h u p clientMetaData of
        Inl error \<Rightarrow> catchBlock h error store calls
      | Inr out \<Rightarrow>
          (let store1 =
                 setActiveSignInState
                   \<lparr>signInSession = Session out, username = u,
                    challengeName = ChallengeName out\<rparr> store
           in case AuthenticationResult out of
                Some tokens \<Rightarrow>
                  \<lparr>outcome = Inr \<lparr>isSignedIn = True,
                                  nextStep = \<lparr>signInStep = DONE, additionalInfo = None\<rparr>\<rparr>,
                   storeAfter = cleanActiveSignInState store1,
                   flowCalls = calls\<rparr>
              | None \<Rightarrow>
                  (case getSignInResult (relevantParameters h)
                          (ChallengeName out) (ChallengeParameters out) of
                     Inr result \<Rightarrow>
                       \<lparr>outcome = Inr result, storeAfter = store1, flowCalls = calls\<rparr>
                   | Inl error \<Rightarrow>
                       (case getSignInResultFailure h of
                          ThrowsAtCall \<Rightarrow> catchBlock h error store1 calls
                        | RejectsLater \<Rightarrow>
                            \<lparr>outcome = Inl error, storeAfter = store1,
                             flowCalls = calls\<rparr>))))"

definition signInWithSRP ::
  "SignInHelpers \<Rightarrow> AmplifyConfig \<Rightarrow> SignInRequest \<Rightarrow> SignInState option \<Rightarrow> SignInOutcome" where
  "signInWithSRP h config signInRequest store =
     (let clientMetaData =
            orElse (requestClientMetadata signInRequest) (configClientMetadata config)
      in case assertValidationError (truthy (reqUsername signInRequest)) EmptySignInUsername of
           Some e \<Rightarrow> \<lparr>outcome = Inl e, storeAfter = store, flowCalls = []\<rparr>
         | None \<Rightarrow>
             (case assertValidationError (truthy (reqPassword signInRequest)) EmptySignInPassword of
                Some e \<Rightarrow> \<lparr>outcome = Inl e, storeAfter = store, flowCalls = []\<rparr>
              | None \<Rightarrow>
                  tryBlock h (stringOf (reqUsername signInRequest))
                    (stringOf (reqPassword signInRequest)) clientMetaData store))"

subsection \<open>A run of sign-in calls\<close>




section \<open>The auth route handlers factory\<close>

text \<open>
  The resources configuration, as far as the factory and \<open>configure\<close> read it. An
  OAuth configuration is an opaque bag here.
\<close>

type_synonym OAuthConfig = "(string \<times> string) list"

type_synonym CookieOptions = "(string \<times> string) list"

record LoginWith =
  oauth :: "OAuthConfig option"

record CognitoConfig =
  userPoolClientId :: "string option"
  loginWith :: "LoginWith option"

record AuthConfig =
  Cognito :: "CognitoConfig option"

record ResourcesConfig =
  Auth :: "AuthConfig option"
  otherCategories :: "string list"

record RuntimeOptions =
  cookies :: "CookieOptions option"

datatype factoryError =
    AmplifyServerContextError string string
  | ConfigAssertionError string
  | TypeError

text \<open>
  From \<open>./utils\<close> and the core internals, outside the sources at hand: the origin
  check and the two configuration assertions (\<open>Some e\<close>: the assertion throws \<open>e\<close>).
\<close>

record FactoryUtils =
  isValidOrigin :: "string \<Rightarrow> bool"
  assertTokenProviderConfig :: "CognitoConfig option \<Rightarrow> factoryError option"
  assertOAuthConfig :: "CognitoConfig option \<Rightarrow> factoryError option"

text \<open>What the returned handler closes over.\<close>

record 'run AuthRouteHandlers =
  handlerUserPoolClientId :: "string option"
  handlerOAuthConfig :: "OAuthConfig option"
  handlerSetCookieOptions :: CookieOptions
  handlerOrigin :: string
  handlerRunWithAmplifyServerContext :: 'run

definition missingOriginError :: factoryError where
  "missingOriginError =
     AmplifyServerContextError
       ''Could not find the AMPLIFY_APP_ORIGIN environment variable.''
       ''Add the AMPLIFY_APP_ORIGIN environment variable to the `.env` file of your Next.js project.''"

definition invalidOriginError :: factoryError where
  "invalidOriginError =
     AmplifyServerContextError
       ''AMPLIFY_APP_ORIGIN environment variable contains an invalid origin string.''
       ''Ensure the AMPLIFY_APP_ORIGIN environment variable is a valid origin string.''"

text \<open>\<open>resourcesConfig.Auth?.Cognito\<close>\<close>

definition cognitoOf :: "ResourcesConfig \<Rightarrow> CognitoConfig option" where
  "cognitoOf resourcesConfig =
     (case Auth resourcesConfig of None \<Rightarrow> None | Some a \<Rightarrow> Cognito a)"

text \<open>
  The first argument is \<open>process.env.AMPLIFY_APP_ORIGIN\<close>. \<open>Inl\<close> is a throw out of
  the factory; \<open>Inr\<close> is the handler creator it returns. The first assertion is
  handed \<open>resourcesConfig.Auth?.Cognito\<close>; the second one \<open>resourcesConfig.Auth.Cognito\<close>,
  which is a \<open>TypeError\<close> on an undefined \<open>Auth\<close>, as is destructuring an undefined
  \<open>Cognito\<close> or \<open>loginWith\<close>.
\<close>

definition createAuthRouteHandlersFactory ::
  "FactoryUtils \<Rightarrow> string option \<Rightarrow> ResourcesConfig \<Rightarrow> RuntimeOptions option \<Rightarrow> 'run
     \<Rightarrow> factoryError + 'run AuthRouteHandlers" where
  "createAuthRouteHandlersFactory u origin resourcesConfig runtimeOptions runWithAmplifyServerContext =
     (if \<not> truthy origin then Inl missingOriginError
      else if \<not> isValidOrigin u (stringOf origin) then Inl invalidOriginError
      else
        (case assertTokenProviderConfig u (cognitoOf resourcesConfig) of
           Some e \<Rightarrow> Inl e
         | None \<Rightarrow>
             (case Auth resourcesConfig of
                None \<Rightarrow> Inl TypeError
              | Some auth \<Rightarrow>
                  (case assertOAuthConfig u (Cognito auth) of
                     Some e \<Rightarrow> Inl e
                   | None \<Rightarrow>
                       (case Cognito auth of
                          None \<Rightarrow> Inl TypeError
                        | Some cognito \<Rightarrow>
                            (case loginWith cognito of
                               None \<Rightarrow> Inl TypeError
                             | Some lw \<Rightarrow>
                                 Inr \<lparr>handlerUserPoolClientId = userPoolClientId cognito,
                                      handlerOAuthConfig = oauth lw,
                                      handlerSetCookieOptions =
                                        (case runtimeOptions of
                                           None \<Rightarrow> []
                                         | Some ro \<Rightarrow>
                                             (case cookies ro of
                                                None \<Rightarrow> []
                                              | Some c \<Rightarrow> c)),
                                      handlerOrigin = stringOf origin,
                                      handlerRunWithAmplifyServerContext =
                                        runWithAmplifyServerContext\<rparr>))))))"

section \<open>DefaultAmplify.configure\<close>

datatype KeyValueStorage = DefaultStorage | CookieStorageLax

datatype TokenProvider = CognitoUserPoolsTokenProvider | CustomTokenProvider nat

text \<open>
  \<open>CognitoCredentialsProvider\<close> is the shared default; \<open>CognitoCookieCredentialsProvider\<close>
  is the Cognito provider made anew over the cookie storage for \<open>ssr\<close>.
\<close>

datatype CredentialsProvider =
    CognitoCredentialsProvider
  | CognitoCookieCredentialsProvider
  | CustomCredentialsProvider nat

record AuthLibraryOptions =
  tokenProvider :: "TokenProvider option"
  credentialsProvider :: "CredentialsProvider option"

text \<open>
  An optional property of an object: no own key, an own key that holds
  \<open>undefined\<close>, or a value. Reading it gives \<open>undefined\<close> in the first two cases
  alike; spreading the object copies the key in the last two.
\<close>

datatype 'a property = Absent | Undefined | Defined 'a

fun valueOf :: "'a property \<Rightarrow> 'a option" where
  "valueOf Absent = None"
| "valueOf Undefined = None"
| "valueOf (Defined a) = Some a"

text \<open>
  The library options; the field of the Auth options carries a prefix because the
  resources configuration has an \<open>Auth\<close> of its own.
\<close>

record LibraryOptions =
  ssr :: "bool property"
  libAuth :: "AuthLibraryOptions property"
  otherOptions :: "string list"

text \<open>
  The state \<open>configure\<close> reads and writes: \<open>Amplify.libraryOptions\<close> and the
  settings of the shared Cognito token provider.
\<close>

record AmplifyState =
  libraryOptions :: LibraryOptions
  tokenProviderAuthConfig :: "AuthConfig option"
  tokenProviderKeyValueStorage :: "KeyValueStorage option"

text \<open>The arguments handed to \<open>Amplify.configure\<close>, and the state at that moment.\<close>

record ConfigureOutcome =
  configuredResources :: ResourcesConfig
  configuredOptions :: "LibraryOptions option"
  stateAtConfigure :: AmplifyState

definition emptyLibraryOptions :: LibraryOptions where
  "emptyLibraryOptions = \<lparr>ssr = Absent, libAuth = Absent, otherOptions = []\<rparr>"

text \<open>\<open>libraryOptions?.ssr\<close> as a condition.\<close>

definition ssrRequested :: "LibraryOptions option \<Rightarrow> bool" where
  "ssrRequested lo =
     (case lo of None \<Rightarrow> False | Some l \<Rightarrow> valueOf (ssr l) = Some True)"

text \<open>\<open>libraryOptions?.Auth\<close>\<close>

definition callerAuth :: "LibraryOptions option \<Rightarrow> AuthLibraryOptions option" where
  "callerAuth lo = (case lo of None \<Rightarrow> None | Some l \<Rightarrow> valueOf (libAuth l))"

definition resolvedKeyValueStorage :: "LibraryOptions option \<Rightarrow> KeyValueStorage" where
  "resolvedKeyValueStorage lo = (if ssrRequested lo then CookieStorageLax else DefaultStorage)"

definition resolvedCredentialsProvider :: "LibraryOptions option \<Rightarrow> CredentialsProvider" where
  "resolvedCredentialsProvider lo =
     (if ssrRequested lo then CognitoCookieCredentialsProvider else CognitoCredentialsProvider)"

text \<open>
  \<open>{Auth: authLibraryOptions, ...libraryOptions}\<close>: the caller's options are spread
  last, so an own \<open>Auth\<close> key of theirs wins, also when it holds \<open>undefined\<close>.
\<close>

definition withAuthUnder :: "AuthLibraryOptions \<Rightarrow> LibraryOptions \<Rightarrow> LibraryOptions" where
  "withAuthUnder authLibraryOptions l =
     (case libAuth l of
        Absent \<Rightarrow> l\<lparr>libAuth := Defined authLibraryOptions\<rparr>
      | Undefined \<Rightarrow> l
      | Defined a \<Rightarrow> l)"

text \<open>
  \<open>parse\<close> is \<open>parseAmplifyConfig\<close>. The branches are the source's, in its order. In
  the fourth one the assignment to \<open>authLibraryOptions.credentialsProvider\<close> writes
  into the object \<open>Amplify.libraryOptions.Auth\<close> points to, so the state changes too.
\<close>

definition configure ::
  "('raw \<Rightarrow> ResourcesConfig) \<Rightarrow> AmplifyState \<Rightarrow> 'raw \<Rightarrow> LibraryOptions option
     \<Rightarrow> ConfigureOutcome" where
  "configure parse st resourceConfig lo =
     (let resolvedResourceConfig = parse resourceConfig in
      if Auth resolvedResourceConfig = None then
        \<lparr>configuredResources = resolvedResourceConfig, configuredOptions = lo,
         stateAtConfigure = st\<rparr>
      else if callerAuth lo \<noteq> None then
        \<lparr>configuredResources = resolvedResourceConfig, configuredOptions = lo,
         stateAtConfigure = st\<rparr>
      else
        (case valueOf (libAuth (libraryOptions st)) of
           None \<Rightarrow>
             \<lparr>configuredResources = resolvedResourceConfig,
              configuredOptions =
                Some ((case lo of None \<Rightarrow> emptyLibraryOptions | Some l \<Rightarrow> l)
                        \<lparr>libAuth :=
                           Defined
                             \<lparr>tokenProvider = Some CognitoUserPoolsTokenProvider,
                              credentialsProvider = Some (resolvedCredentialsProvider lo)\<rparr>\<rparr>),
              stateAtConfigure =
                st\<lparr>tokenProviderAuthConfig := Auth resolvedResourceConfig,
                   tokenProviderKeyValueStorage := Some (resolvedKeyValueStorage lo)\<rparr>\<rparr>
         | Some authLibraryOptions \<Rightarrow>
             (case lo of
                Some l \<Rightarrow>
                  (if valueOf (ssr l) \<noteq> None then
                     (let authLibraryOptions' =
                            authLibraryOptions
                              \<lparr>credentialsProvider := Some (resolvedCredentialsProvider lo)\<rparr>
                      in \<lparr>configuredResources = resolvedResourceConfig,
                          configuredOptions = Some (withAuthUnder authLibraryOptions' l),
                          stateAtConfigure =
                            st\<lparr>libraryOptions :=
                                 (libraryOptions st)\<lparr>libAuth := Defined authLibraryOptions'\<rparr>,
                               tokenProviderKeyValueStorage :=
                                 Some (resolvedKeyValueStorage lo)\<rparr>\<rparr>)
                   else
                     \<lparr>configuredResources = resolvedResourceConfig,
                      configuredOptions = Some (withAuthUnder authLibraryOptions l),
                      stateAtConfigure = st\<rparr>)
              | None \<Rightarrow>
                  \<lparr>configuredResources = resolvedResourceConfig, configuredOptions = None,
                   stateAtConfigure = st\<rparr>)))"

text \<open>The three conditions under which the default providers are installed.\<close>

definition installsDefaults ::
  "ResourcesConfig \<Rightarrow> AmplifyState \<Rightarrow> LibraryOptions option \<Rightarrow> bool" where
  "installsDefaults resolved st lo =
     (Auth resolved \<noteq> None \<and> callerAuth lo = None
      \<and> valueOf (libAuth (libraryOptions st)) = None)"

text \<open>Whether a thrown value is the server-context error of the factory.\<close>

fun isAmplifyServerContextError :: "factoryError \<Rightarrow> bool" where
  "isAmplifyServerContextError (AmplifyServerContextError message recoverySuggestion) = True"
| "isAmplifyServerContextError (ConfigAssertionError message) = False"
| "isAmplifyServerContextError TypeError = False"

fun errorMessage :: "factoryError \<Rightarrow> string" where
  "errorMessage (AmplifyServerContextError message recoverySuggestion) = message"
| "errorMessage (ConfigAssertionError message) = message"
| "errorMessage TypeError = []"

section \<open>Concrete inputs\<close>

text \<open>Small inputs on which the properties below are exercised.\<close>

definition tokensFlow :: "string \<Rightarrow> string \<Rightarrow> ClientMetadata option \<Rightarrow> thrown + AuthFlowOutput" where
  "tokensFlow u p m =
     Inr \<lparr>ChallengeName = None, ChallengeParameters = None,
          AuthenticationResult =
            Some \<lparr>AccessToken = ''at'', IdToken = ''it'', RefreshToken = ''rt''\<rparr>,
          Session = None\<rparr>"

definition challengeFlow ::
  "string \<Rightarrow> string \<Rightarrow> string \<Rightarrow> string \<Rightarrow> ClientMetadata option \<Rightarrow> thrown + AuthFlowOutput" where
  "challengeFlow n sess u p m =
     Inr \<lparr>ChallengeName = Some n,
          ChallengeParameters = Some [(''destination'', ''phone''), (''salt'', ''abc'')],
          AuthenticationResult = None,
          Session = Some sess\<rparr>"

definition throwingFlow ::
  "thrown \<Rightarrow> string \<Rightarrow> string \<Rightarrow> ClientMetadata option \<Rightarrow> thrown + AuthFlowOutput" where
  "throwingFlow e u p m = Inl e"

definition resetPasswordResult :: AuthSignInResult where
  "resetPasswordResult =
     \<lparr>isSignedIn = False,
      nextStep = \<lparr>signInStep = CONFIRM_SIGN_IN NewPasswordRequired, additionalInfo = None\<rparr>\<rparr>"

definition helpersWith ::
  "(string \<Rightarrow> string \<Rightarrow> ClientMetadata option \<Rightarrow> thrown + AuthFlowOutput) \<Rightarrow> SignInHelpers" where
  "helpersWith flow =
     \<lparr>handleUserSRPAuthFlow = flow,
      assertServiceError =
        (\<lambda>e. if errorName e = ''Error'' then Some (NamedError ''Unknown'') else None),
      getSignInResultFromError =
        (\<lambda>n. if n = ''PasswordResetRequiredException'' then Some resetPasswordResult else None),
      relevantParameters = (\<lambda>c. if c = MfaCode then [''destination''] else []),
      getSignInResultFailure = ThrowsAtCall\<rparr>"

text \<open>A flow that gives tokens only when it is handed the metadata it expects.\<close>

definition metadataCheckingFlow ::
  "ClientMetadata option \<Rightarrow> string \<Rightarrow> string \<Rightarrow> ClientMetadata option
     \<Rightarrow> thrown + AuthFlowOutput" where
  "metadataCheckingFlow expected u p m =
     (if m = expected then tokensFlow u p m else Inl (NamedError ''UnexpectedMetadata''))"

definition requestOf :: "string \<Rightarrow> string \<Rightarrow> SignInRequest" where
  "requestOf u p = \<lparr>reqUsername = Some u, reqPassword = Some p, reqOptions = None\<rparr>"

definition requestWithMetadata :: "string \<Rightarrow> string \<Rightarrow> ClientMetadata \<Rightarrow> SignInRequest" where
  "requestWithMetadata u p m =
     \<lparr>reqUsername = Some u, reqPassword = Some p,
      reqOptions = Some \<lparr>serviceOptions = Some \<lparr>clientMetadata = Some m\<rparr>\<rparr>\<rparr>"

definition globalConfig :: AmplifyConfig where
  "globalConfig = \<lparr>configClientMetadata = Some [(''app'', ''web'')]\<rparr>"

definition pendingSession :: SignInState where
  "pendingSession =
     \<lparr>signInSession = Some ''s0'', username = ''bob'', challengeName = Some ''MfaCode''\<rparr>"

definition strictUtils :: FactoryUtils where
  "strictUtils =
     \<lparr>isValidOrigin = (\<lambda>s. s = ''https://example.com''),
      assertTokenProviderConfig =
        (\<lambda>c. if c = None then Some (ConfigAssertionError ''no user pool'') else None),
      assertOAuthConfig =
        (\<lambda>c. case c of
               None \<Rightarrow> Some (ConfigAssertionError ''no oauth'')
             | Some cc \<Rightarrow>
                 if loginWith cc = None then Some (ConfigAssertionError ''no oauth'') else None)\<rparr>"

definition oauthResources :: ResourcesConfig where
  "oauthResources =
     \<lparr>Auth = Some \<lparr>Cognito =
              Some \<lparr>userPoolClientId = Some ''client'',
                    loginWith = Some \<lparr>oauth = Some [(''domain'', ''auth.example.com'')]\<rparr>\<rparr>\<rparr>,
      otherCategories = []\<rparr>"

definition customAuthState :: AmplifyState where
  "customAuthState =
     \<lparr>libraryOptions =
        \<lparr>ssr = Absent,
         libAuth = Defined \<lparr>tokenProvider = Some (CustomTokenProvider 1),
                            credentialsProvider = Some (CustomCredentialsProvider 2)\<rparr>,
         otherOptions = []\<rparr>,
      tokenProviderAuthConfig = None,
      tokenProviderKeyValueStorage = None\<rparr>"

definition freshState :: AmplifyState where
  "freshState =
     \<lparr>libraryOptions = emptyLibraryOptions,
      tokenProviderAuthConfig = None,
      tokenProviderKeyValueStorage = None\<rparr>"

definition ssrOptions :: "LibraryOptions option" where
  "ssrOptions = Some \<lparr>ssr = Defined True, libAuth = Absent, otherOptions = []\<rparr>"

definition undefinedAuthOptions :: "LibraryOptions option" where
  "undefinedAuthOptions = Some \<lparr>ssr = Defined True, libAuth = Undefined, otherOptions = []\<rparr>"

section \<open>Auxiliary facts\<close>

text \<open>What each block of \<open>signInWithSRP\<close> does to the store, the log and the outcome.\<close>

lemma catchBlock_store: "storeAfter (catchBlock h e st calls) = None"
  by (simp add: catchBlock_def cleanActiveSignInState_def Let_def split: option.splits)

lemma catchBlock_calls: "flowCalls (catchBlock h e st calls) = calls"
  by (simp add: catchBlock_def Let_def split: option.splits)

lemma catchBlock_outcome:
  "assertServiceError h e = None \<Longrightarrow>
   outcome (catchBlock h e st calls) =
     (case getSignInResultFromError h (errorName e) of Some r \<Rightarrow> Inr r | None \<Rightarrow> Inl e)"
  by (simp add: catchBlock_def Let_def split: option.splits)

lemma signInWithSRP_valid:
  "truthy (reqUsername r) \<Longrightarrow> truthy (reqPassword r) \<Longrightarrow>
   signInWithSRP h config r store =
     tryBlock h (stringOf (reqUsername r)) (stringOf (reqPassword r))
       (orElse (requestClientMetadata r) (configClientMetadata config)) store"
  by (simp add: signInWithSRP_def assertValidationError_def Let_def)

lemma tryBlock_calls:
  "flowCalls (tryBlock h u p m st) =
     [\<lparr>callUsername = u, callPassword = p, callClientMetadata = m\<rparr>]"
  by (simp add: tryBlock_def Let_def catchBlock_calls
      split: sum.splits option.splits failureMode.splits)

lemma tryBlock_store_independent:
  "storeAfter (tryBlock h u p m st) = storeAfter (tryBlock h u p m st')"
  by (simp add: tryBlock_def Let_def catchBlock_store setActiveSignInState_def
      cleanActiveSignInState_def split: sum.splits option.splits failureMode.splits)

lemma catchBlock_flow_update:
  "catchBlock (h\<lparr>handleUserSRPAuthFlow := f\<rparr>) e st calls = catchBlock h e st calls"
  by (simp add: catchBlock_def Let_def split: option.splits)

lemma tryBlock_flow_update:
  "f u p m = handleUserSRPAuthFlow h u p m \<Longrightarrow>
   tryBlock (h\<lparr>handleUserSRPAuthFlow := f\<rparr>) u p m st = tryBlock h u p m st"
  by (simp add: tryBlock_def Let_def catchBlock_flow_update
      split: sum.splits option.splits failureMode.splits)


lemma signInWithSRP_invalid:
  "\<not> (truthy (reqUsername r) \<and> truthy (reqPassword r)) \<Longrightarrow>
   signInWithSRP h config r store =
     \<lparr>outcome = Inl (ValidationError
                       (if truthy (reqUsername r) then EmptySignInPassword
                        else EmptySignInUsername)),
      storeAfter = store, flowCalls = []\<rparr>"
  by (auto simp: signInWithSRP_def assertValidationError_def Let_def)


section \<open>Properties of signInWithSRP\<close>

text \<open>
  C1. A call whose username or password is falsy fails with the validation error of
  that field (the username is asserted first, so its error is the one raised when both
  are falsy); the remote flow is not called and the stored session is what it was.
\<close>

theorem signInWithSRP_validation:
  assumes "\<not> truthy (reqUsername signInRequest) \<or> \<not> truthy (reqPassword signInRequest)"
  shows "signInWithSRP h config signInRequest store =
           \<lparr>outcome = Inl (ValidationError
                             (if truthy (reqUsername signInRequest) then EmptySignInPassword
                              else EmptySignInUsername)),
            storeAfter = store, flowCalls = []\<rparr>"
  using assms by (auto simp: signInWithSRP_def assertValidationError_def Let_def)

theorem signInWithSRP_validation_witness:
  "\<not> truthy (reqPassword \<lparr>reqUsername = Some ''alice'', reqPassword = Some [], reqOptions = None\<rparr>)
   \<and> signInWithSRP (helpersWith tokensFlow) globalConfig
        \<lparr>reqUsername = Some ''alice'', reqPassword = Some [], reqOptions = None\<rparr>
        (Some pendingSession) =
      \<lparr>outcome = Inl (ValidationError EmptySignInPassword),
       storeAfter = Some pendingSession, flowCalls = []\<rparr>"
  using signInWithSRP_validation
    [of "\<lparr>reqUsername = Some ''alice'', reqPassword = Some [], reqOptions = None\<rparr>"
        "helpersWith tokensFlow" globalConfig "Some pendingSession"]
  by simp

text \<open>
  C2. When the remote flow resolves with an \<open>AuthenticationResult\<close>, the call
  returns \<open>isSignedIn = true\<close> with the step \<open>DONE\<close>, and the store is empty
  afterwards, whatever it held before and whatever else the response carries.
\<close>

theorem signInWithSRP_tokens:
  assumes "truthy (reqUsername signInRequest)" and "truthy (reqPassword signInRequest)"
    and "handleUserSRPAuthFlow h (stringOf (reqUsername signInRequest))
           (stringOf (reqPassword signInRequest))
           (orElse (requestClientMetadata signInRequest) (configClientMetadata config)) = Inr out"
    and "AuthenticationResult out = Some tokens"
  shows "outcome (signInWithSRP h config signInRequest store) =
           Inr \<lparr>isSignedIn = True, nextStep = \<lparr>signInStep = DONE, additionalInfo = None\<rparr>\<rparr>
         \<and> storeAfter (signInWithSRP h config signInRequest store) = None"
  using assms
  by (simp add: signInWithSRP_valid tryBlock_def Let_def cleanActiveSignInState_def)

theorem signInWithSRP_tokens_witness:
  "outcome (signInWithSRP (helpersWith tokensFlow) globalConfig (requestOf ''alice'' ''pw'')
              (Some pendingSession)) =
     Inr \<lparr>isSignedIn = True, nextStep = \<lparr>signInStep = DONE, additionalInfo = None\<rparr>\<rparr>
   \<and> storeAfter (signInWithSRP (helpersWith tokensFlow) globalConfig (requestOf ''alice'' ''pw'')
                   (Some pendingSession)) = None"
  using signInWithSRP_tokens
    [of "requestOf ''alice'' ''pw''" "helpersWith tokensFlow" globalConfig
        "\<lparr>ChallengeName = None, ChallengeParameters = None,
          AuthenticationResult =
            Some \<lparr>AccessToken = ''at'', IdToken = ''it'', RefreshToken = ''rt''\<rparr>,
          Session = None\<rparr>"
        "\<lparr>AccessToken = ''at'', IdToken = ''it'', RefreshToken = ''rt''\<rparr>"
        "Some pendingSession"]
  by (simp add: requestOf_def helpersWith_def tokensFlow_def)

text \<open>
  C3. When the remote flow throws, the store is empty afterwards in every case (the
  cleaning comes before the assertion and the classification, so it holds even if the
  assertion throws). For an error the service-error assertion accepts, the call resolves
  with the result the classifier gives for the error name if there is one, and throws the
  caught error again otherwise.
\<close>

theorem signInWithSRP_remote_error:
  assumes "truthy (reqUsername signInRequest)" and "truthy (reqPassword signInRequest)"
    and "handleUserSRPAuthFlow h (stringOf (reqUsername signInRequest))
           (stringOf (reqPassword signInRequest))
           (orElse (requestClientMetadata signInRequest) (configClientMetadata config)) = Inl error"
  shows "storeAfter (signInWithSRP h config signInRequest store) = None
         \<and> (assertServiceError h error = None \<longrightarrow>
              outcome (signInWithSRP h config signInRequest store) =
                (case getSignInResultFromError h (errorName error) of
                   Some result \<Rightarrow> Inr result
                 | None \<Rightarrow> Inl error))"
  using assms
  by (simp add: signInWithSRP_valid tryBlock_def Let_def catchBlock_store catchBlock_outcome)

theorem signInWithSRP_remote_error_witness:
  "storeAfter (signInWithSRP (helpersWith (throwingFlow (NamedError ''PasswordResetRequiredException'')))
                 globalConfig (requestOf ''alice'' ''pw'') (Some pendingSession)) = None
   \<and> outcome (signInWithSRP (helpersWith (throwingFlow (NamedError ''PasswordResetRequiredException'')))
                 globalConfig (requestOf ''alice'' ''pw'') (Some pendingSession)) =
       Inr resetPasswordResult
   \<and> storeAfter (signInWithSRP (helpersWith (throwingFlow (NamedError ''NotAuthorizedException'')))
                 globalConfig (requestOf ''alice'' ''pw'') (Some pendingSession)) = None
   \<and> outcome (signInWithSRP (helpersWith (throwingFlow (NamedError ''NotAuthorizedException'')))
                 globalConfig (requestOf ''alice'' ''pw'') (Some pendingSession)) =
       Inl (NamedError ''NotAuthorizedException'')"
  using signInWithSRP_remote_error
    [of "requestOf ''alice'' ''pw''"
        "helpersWith (throwingFlow (NamedError ''PasswordResetRequiredException''))"
        globalConfig "NamedError ''PasswordResetRequiredException''" "Some pendingSession"]
    signInWithSRP_remote_error
    [of "requestOf ''alice'' ''pw''"
        "helpersWith (throwingFlow (NamedError ''NotAuthorizedException''))"
        globalConfig "NamedError ''NotAuthorizedException''" "Some pendingSession"]
  by (simp add: requestOf_def helpersWith_def throwingFlow_def)

text \<open>
  C5. When the remote flow resolves without tokens and with the name of a known
  challenge, the store holds exactly the returned \<open>Session\<close>, the caller's username
  and the returned challenge name, and the call returns \<open>isSignedIn = false\<close> with
  that challenge as the next step.
\<close>

theorem signInWithSRP_challenge:
  assumes "truthy (reqUsername signInRequest)" and "truthy (reqPassword signInRequest)"
    and "handleUserSRPAuthFlow h (stringOf (reqUsername signInRequest))
           (stringOf (reqPassword signInRequest))
           (orElse (requestClientMetadata signInRequest) (configClientMetadata config)) = Inr out"
    and "AuthenticationResult out = None"
    and "ChallengeName out = Some n" and "challengeOfName n = Some c"
  shows "storeAfter (signInWithSRP h config signInRequest store) =
           Some \<lparr>signInSession = Session out,
                 username = stringOf (reqUsername signInRequest),
                 challengeName = Some n\<rparr>
         \<and> outcome (signInWithSRP h config signInRequest store) =
             Inr \<lparr>isSignedIn = False,
                  nextStep =
                    \<lparr>signInStep = CONFIRM_SIGN_IN c,
                     additionalInfo =
                       map_option (filterParameters (relevantParameters h c))
                         (ChallengeParameters out)\<rparr>\<rparr>"
  using assms
  by (simp add: signInWithSRP_valid tryBlock_def Let_def getSignInResult_def
      setActiveSignInState_def)

theorem signInWithSRP_challenge_witness:
  "storeAfter (signInWithSRP (helpersWith (challengeFlow ''MfaCode'' ''s1'')) globalConfig
                 (requestOf ''alice'' ''pw'') None) =
     Some \<lparr>signInSession = Some ''s1'', username = ''alice'', challengeName = Some ''MfaCode''\<rparr>
   \<and> outcome (signInWithSRP (helpersWith (challengeFlow ''MfaCode'' ''s1'')) globalConfig
                 (requestOf ''alice'' ''pw'') None) =
       Inr \<lparr>isSignedIn = False,
            nextStep = \<lparr>signInStep = CONFIRM_SIGN_IN MfaCode,
                        additionalInfo = Some [(''destination'', ''phone'')]\<rparr>\<rparr>"
  using signInWithSRP_challenge
    [of "requestOf ''alice'' ''pw''" "helpersWith (challengeFlow ''MfaCode'' ''s1'')"
        globalConfig
        "\<lparr>ChallengeName = Some ''MfaCode'',
          ChallengeParameters = Some [(''destination'', ''phone''), (''salt'', ''abc'')],
          AuthenticationResult = None, Session = Some ''s1''\<rparr>"
        "''MfaCode''" MfaCode None]
  by (simp add: requestOf_def helpersWith_def challengeFlow_def challengeOfName_def
      filterParameters_def)

text \<open>
  C6. A second sign-in that passes validation, started while the first one has left a
  session in the store, leaves the store as if the first session had never been there:
  nothing of it is merged. If the second one ends awaiting a challenge, the store holds
  the second session only. The store is a \<open>SignInState option\<close>, so there is never
  more than one session in it.
\<close>

theorem second_signIn_discards_first:
  assumes first: "storeAfter (signInWithSRP h1 config1 request1 store0) = Some s1"
    and "truthy (reqUsername request2)" and "truthy (reqPassword request2)"
  shows "storeAfter (signInWithSRP h2 config2 request2 (Some s1)) =
           storeAfter (signInWithSRP h2 config2 request2 None)
         \<and> (\<forall>out n c.
               handleUserSRPAuthFlow h2 (stringOf (reqUsername request2))
                 (stringOf (reqPassword request2))
                 (orElse (requestClientMetadata request2) (configClientMetadata config2)) = Inr out
               \<and> AuthenticationResult out = None \<and> ChallengeName out = Some n
               \<and> challengeOfName n = Some c \<longrightarrow>
               storeAfter (signInWithSRP h2 config2 request2
                             (storeAfter (signInWithSRP h1 config1 request1 store0))) =
                 Some \<lparr>signInSession = Session out,
                       username = stringOf (reqUsername request2),
                       challengeName = Some n\<rparr>)"
proof
  show "storeAfter (signInWithSRP h2 config2 request2 (Some s1)) =
          storeAfter (signInWithSRP h2 config2 request2 None)"
    using assms(2,3) by (simp add: signInWithSRP_valid tryBlock_store_independent [of _ _ _ _ "Some s1" None])
next
  show "\<forall>out n c.
          handleUserSRPAuthFlow h2 (stringOf (reqUsername request2))
            (stringOf (reqPassword request2))
            (orElse (requestClientMetadata request2) (configClientMetadata config2)) = Inr out
          \<and> AuthenticationResult out = None \<and> ChallengeName out = Some n
          \<and> challengeOfName n = Some c \<longrightarrow>
          storeAfter (signInWithSRP h2 config2 request2
                        (storeAfter (signInWithSRP h1 config1 request1 store0))) =
            Some \<lparr>signInSession = Session out,
                  username = stringOf (reqUsername request2),
                  challengeName = Some n\<rparr>"
    using assms(2,3)
    by (simp add: signInWithSRP_valid tryBlock_def Let_def getSignInResult_def
        setActiveSignInState_def)
qed

theorem second_signIn_discards_first_witness:
  "storeAfter (signInWithSRP (helpersWith (challengeFlow ''MfaCode'' ''s1'')) globalConfig
                 (requestOf ''alice'' ''pw'') None) =
     Some \<lparr>signInSession = Some ''s1'', username = ''alice'', challengeName = Some ''MfaCode''\<rparr>
   \<and> storeAfter (signInWithSRP (helpersWith (challengeFlow ''NewPasswordRequired'' ''s2''))
                   globalConfig (requestOf ''carol'' ''pw2'')
                   (storeAfter (signInWithSRP (helpersWith (challengeFlow ''MfaCode'' ''s1''))
                                  globalConfig (requestOf ''alice'' ''pw'') None))) =
       Some \<lparr>signInSession = Some ''s2'', username = ''carol'',
             challengeName = Some ''NewPasswordRequired''\<rparr>"
proof -
  have first:
    "storeAfter (signInWithSRP (helpersWith (challengeFlow ''MfaCode'' ''s1'')) globalConfig
                   (requestOf ''alice'' ''pw'') None) =
       Some \<lparr>signInSession = Some ''s1'', username = ''alice'', challengeName = Some ''MfaCode''\<rparr>"
    by (simp add: signInWithSRP_valid requestOf_def helpersWith_def challengeFlow_def
        tryBlock_def Let_def getSignInResult_def challengeOfName_def setActiveSignInState_def)
  have u: "truthy (reqUsername (requestOf ''carol'' ''pw2''))"
    and p: "truthy (reqPassword (requestOf ''carol'' ''pw2''))"
    by (simp_all add: requestOf_def)
  from second_signIn_discards_first
         [of "helpersWith (challengeFlow ''MfaCode'' ''s1'')" globalConfig
             "requestOf ''alice'' ''pw''" None _
             "requestOf ''carol'' ''pw2''"
             "helpersWith (challengeFlow ''NewPasswordRequired'' ''s2'')" globalConfig,
          OF first u p]
  have "storeAfter (signInWithSRP (helpersWith (challengeFlow ''NewPasswordRequired'' ''s2''))
                   globalConfig (requestOf ''carol'' ''pw2'')
                   (storeAfter (signInWithSRP (helpersWith (challengeFlow ''MfaCode'' ''s1''))
                                  globalConfig (requestOf ''alice'' ''pw'') None))) =
       Some \<lparr>signInSession = Some ''s2'', username = ''carol'',
             challengeName = Some ''NewPasswordRequired''\<rparr>"
    by (simp add: requestOf_def helpersWith_def challengeFlow_def challengeOfName_def)
  with first show ?thesis by simp
qed



text \<open>
  C8. When both assertions pass, the remote flow is called once, with the client
  metadata of the call's \<open>options.serviceOptions.clientMetadata\<close> when that is
  given and with the globally configured one otherwise. What the flow answers to exactly
  these arguments decides the call: replacing the flow by any other that answers the same
  there changes nothing, its tokens there give the \<open>DONE\<close> result, and its error there
  is the one thrown again when nothing classifies it. When an assertion fails the flow is
  not called, and the call is the same for every flow.
\<close>

theorem clientMetadata_forwarded:
  "(truthy (reqUsername signInRequest) \<and> truthy (reqPassword signInRequest) \<longrightarrow>
      (let u = stringOf (reqUsername signInRequest);
           p = stringOf (reqPassword signInRequest);
           md = (case requestClientMetadata signInRequest of
                   Some m \<Rightarrow> Some m
                 | None \<Rightarrow> configClientMetadata config)
       in flowCalls (signInWithSRP h config signInRequest store) =
            [\<lparr>callUsername = u, callPassword = p, callClientMetadata = md\<rparr>]
          \<and> (\<forall>f. f u p md = handleUserSRPAuthFlow h u p md \<longrightarrow>
                signInWithSRP (h\<lparr>handleUserSRPAuthFlow := f\<rparr>) config signInRequest store =
                  signInWithSRP h config signInRequest store)
          \<and> (\<forall>out tokens.
                handleUserSRPAuthFlow h u p md = Inr out
                \<and> AuthenticationResult out = Some tokens \<longrightarrow>
                outcome (signInWithSRP h config signInRequest store) =
                  Inr \<lparr>isSignedIn = True,
                       nextStep = \<lparr>signInStep = DONE, additionalInfo = None\<rparr>\<rparr>)
          \<and> (\<forall>e. handleUserSRPAuthFlow h u p md = Inl e
                \<and> assertServiceError h e = None
                \<and> getSignInResultFromError h (errorName e) = None \<longrightarrow>
                outcome (signInWithSRP h config signInRequest store) = Inl e)))
   \<and> (\<not> (truthy (reqUsername signInRequest) \<and> truthy (reqPassword signInRequest)) \<longrightarrow>
        flowCalls (signInWithSRP h config signInRequest store) = []
        \<and> (\<forall>f. signInWithSRP (h\<lparr>handleUserSRPAuthFlow := f\<rparr>) config signInRequest store =
                signInWithSRP h config signInRequest store))"
proof (cases "truthy (reqUsername signInRequest) \<and> truthy (reqPassword signInRequest)")
  case True
  let ?u = "stringOf (reqUsername signInRequest)"
  let ?p = "stringOf (reqPassword signInRequest)"
  let ?md = "case requestClientMetadata signInRequest of
               Some m \<Rightarrow> Some m
             | None \<Rightarrow> configClientMetadata config"
  have md: "orElse (requestClientMetadata signInRequest) (configClientMetadata config) = ?md"
    by (cases "requestClientMetadata signInRequest") simp_all
  have eq: "signInWithSRP h' config signInRequest store = tryBlock h' ?u ?p ?md store" for h'
    using True by (simp add: signInWithSRP_valid md)
  have calls: "flowCalls (signInWithSRP h config signInRequest store) =
                 [\<lparr>callUsername = ?u, callPassword = ?p, callClientMetadata = ?md\<rparr>]"
    by (simp only: eq tryBlock_calls)
  have same: "signInWithSRP (h\<lparr>handleUserSRPAuthFlow := f\<rparr>) config signInRequest store =
                signInWithSRP h config signInRequest store"
    if "f ?u ?p ?md = handleUserSRPAuthFlow h ?u ?p ?md" for f
    using that by (simp only: eq tryBlock_flow_update)
  have tokens: "outcome (signInWithSRP h config signInRequest store) =
                  Inr \<lparr>isSignedIn = True,
                       nextStep = \<lparr>signInStep = DONE, additionalInfo = None\<rparr>\<rparr>"
    if "handleUserSRPAuthFlow h ?u ?p ?md = Inr out" and "AuthenticationResult out = Some t"
    for out t
    using that by (simp add: eq tryBlock_def Let_def)
  have err: "outcome (signInWithSRP h config signInRequest store) = Inl e"
    if "handleUserSRPAuthFlow h ?u ?p ?md = Inl e" and "assertServiceError h e = None"
      and "getSignInResultFromError h (errorName e) = None"
    for e
    using that by (simp add: eq tryBlock_def Let_def catchBlock_outcome)
  from True calls same tokens err show ?thesis
    unfolding Let_def by blast
next
  case False
  have "signInWithSRP h' config signInRequest store =
          \<lparr>outcome = Inl (ValidationError
                            (if truthy (reqUsername signInRequest) then EmptySignInPassword
                             else EmptySignInUsername)),
           storeAfter = store, flowCalls = []\<rparr>" for h'
    using False by (rule signInWithSRP_invalid)
  with False show ?thesis
    by simp
qed

theorem clientMetadata_forwarded_witness:
  "outcome (signInWithSRP (helpersWith (metadataCheckingFlow (Some [(''k'', ''v'')]))) globalConfig
              (requestWithMetadata ''alice'' ''pw'' [(''k'', ''v'')]) None) =
     Inr \<lparr>isSignedIn = True, nextStep = \<lparr>signInStep = DONE, additionalInfo = None\<rparr>\<rparr>
   \<and> outcome (signInWithSRP (helpersWith (metadataCheckingFlow (Some [(''app'', ''web'')])))
                globalConfig (requestOf ''alice'' ''pw'') None) =
     Inr \<lparr>isSignedIn = True, nextStep = \<lparr>signInStep = DONE, additionalInfo = None\<rparr>\<rparr>
   \<and> outcome (signInWithSRP (helpersWith (metadataCheckingFlow (Some [(''app'', ''web'')])))
                globalConfig (requestWithMetadata ''alice'' ''pw'' [(''k'', ''v'')]) None) =
     Inl (NamedError ''UnexpectedMetadata'')
   \<and> flowCalls (signInWithSRP (helpersWith (metadataCheckingFlow (Some [(''app'', ''web'')])))
                  globalConfig (requestWithMetadata ''alice'' ''pw'' [(''k'', ''v'')]) None) =
     [\<lparr>callUsername = ''alice'', callPassword = ''pw'',
       callClientMetadata = Some [(''k'', ''v'')]\<rparr>]"
proof -
  let ?r1 = "requestWithMetadata ''alice'' ''pw'' [(''k'', ''v'')]"
  let ?r2 = "requestOf ''alice'' ''pw''"
  let ?hk = "helpersWith (metadataCheckingFlow (Some [(''k'', ''v'')]))"
  let ?hg = "helpersWith (metadataCheckingFlow (Some [(''app'', ''web'')]))"
  have v1: "truthy (reqUsername ?r1) \<and> truthy (reqPassword ?r1)"
    by (simp add: requestWithMetadata_def)
  have v2: "truthy (reqUsername ?r2) \<and> truthy (reqPassword ?r2)"
    by (simp add: requestOf_def)
  from clientMetadata_forwarded [of ?r1 globalConfig ?hk None] v1
  have "\<forall>out tokens.
          handleUserSRPAuthFlow ?hk (stringOf (reqUsername ?r1)) (stringOf (reqPassword ?r1))
            (case requestClientMetadata ?r1 of
               Some m \<Rightarrow> Some m
             | None \<Rightarrow> configClientMetadata globalConfig) = Inr out
          \<and> AuthenticationResult out = Some tokens \<longrightarrow>
          outcome (signInWithSRP ?hk globalConfig ?r1 None) =
            Inr \<lparr>isSignedIn = True, nextStep = \<lparr>signInStep = DONE, additionalInfo = None\<rparr>\<rparr>"
    unfolding Let_def by blast
  then have a: "outcome (signInWithSRP ?hk globalConfig ?r1 None) =
      Inr \<lparr>isSignedIn = True, nextStep = \<lparr>signInStep = DONE, additionalInfo = None\<rparr>\<rparr>"
    by (simp add: requestWithMetadata_def requestClientMetadata_def helpersWith_def
        metadataCheckingFlow_def tokensFlow_def)
  from clientMetadata_forwarded [of ?r2 globalConfig ?hg None] v2
  have "\<forall>out tokens.
          handleUserSRPAuthFlow ?hg (stringOf (reqUsername ?r2)) (stringOf (reqPassword ?r2))
            (case requestClientMetadata ?r2 of
               Some m \<Rightarrow> Some m
             | None \<Rightarrow> configClientMetadata globalConfig) = Inr out
          \<and> AuthenticationResult out = Some tokens \<longrightarrow>
          outcome (signInWithSRP ?hg globalConfig ?r2 None) =
            Inr \<lparr>isSignedIn = True, nextStep = \<lparr>signInStep = DONE, additionalInfo = None\<rparr>\<rparr>"
    unfolding Let_def by blast
  then have b: "outcome (signInWithSRP ?hg globalConfig ?r2 None) =
      Inr \<lparr>isSignedIn = True, nextStep = \<lparr>signInStep = DONE, additionalInfo = None\<rparr>\<rparr>"
    by (simp add: requestOf_def requestClientMetadata_def helpersWith_def globalConfig_def
        metadataCheckingFlow_def tokensFlow_def)
  from clientMetadata_forwarded [of ?r1 globalConfig ?hg None] v1
  have "(\<forall>e. handleUserSRPAuthFlow ?hg (stringOf (reqUsername ?r1)) (stringOf (reqPassword ?r1))
               (case requestClientMetadata ?r1 of
                  Some m \<Rightarrow> Some m
                | None \<Rightarrow> configClientMetadata globalConfig) = Inl e
             \<and> assertServiceError ?hg e = None
             \<and> getSignInResultFromError ?hg (errorName e) = None \<longrightarrow>
             outcome (signInWithSRP ?hg globalConfig ?r1 None) = Inl e)
        \<and> flowCalls (signInWithSRP ?hg globalConfig ?r1 None) =
            [\<lparr>callUsername = stringOf (reqUsername ?r1),
              callPassword = stringOf (reqPassword ?r1),
              callClientMetadata =
                (case requestClientMetadata ?r1 of
                   Some m \<Rightarrow> Some m
                 | None \<Rightarrow> configClientMetadata globalConfig)\<rparr>]"
    unfolding Let_def by blast
  then have c: "outcome (signInWithSRP ?hg globalConfig ?r1 None) =
                  Inl (NamedError ''UnexpectedMetadata'')
                \<and> flowCalls (signInWithSRP ?hg globalConfig ?r1 None) =
                    [\<lparr>callUsername = ''alice'', callPassword = ''pw'',
                      callClientMetadata = Some [(''k'', ''v'')]\<rparr>]"
    by (simp add: requestWithMetadata_def requestClientMetadata_def helpersWith_def
        metadataCheckingFlow_def)
  from a b c show ?thesis
    by simp
qed

section \<open>Properties of the auth route handlers factory\<close>

text \<open>
  C9. The factory throws an \<open>AmplifyServerContextError\<close>, and returns no handler
  creator, whenever \<open>AMPLIFY_APP_ORIGIN\<close> is absent or is not a valid origin. The
  message is the "could not find" one when the variable is absent (an empty value counts
  as absent for the code), and a different one, the "invalid origin" one, when the value
  is non-empty and not valid.
\<close>

theorem createAuthRouteHandlersFactory_origin:
  "(origin = None \<longrightarrow>
      createAuthRouteHandlersFactory u origin resourcesConfig runtimeOptions run =
        Inl missingOriginError)
   \<and> (origin = Some [] \<longrightarrow>
      createAuthRouteHandlersFactory u origin resourcesConfig runtimeOptions run =
        Inl missingOriginError)
   \<and> (truthy origin \<and> \<not> isValidOrigin u (stringOf origin) \<longrightarrow>
      createAuthRouteHandlersFactory u origin resourcesConfig runtimeOptions run =
        Inl invalidOriginError)
   \<and> (origin = None \<or> \<not> isValidOrigin u (stringOf origin) \<longrightarrow>
      (\<exists>e. createAuthRouteHandlersFactory u origin resourcesConfig runtimeOptions run = Inl e
           \<and> isAmplifyServerContextError e))
   \<and> isAmplifyServerContextError missingOriginError
   \<and> isAmplifyServerContextError invalidOriginError
   \<and> errorMessage missingOriginError \<noteq> errorMessage invalidOriginError"
  by (cases origin)
     (auto simp: createAuthRouteHandlersFactory_def missingOriginError_def invalidOriginError_def)

theorem createAuthRouteHandlersFactory_origin_witness:
  "createAuthRouteHandlersFactory strictUtils None oauthResources None (0::nat) =
     Inl missingOriginError
   \<and> createAuthRouteHandlersFactory strictUtils (Some ''example.com'') oauthResources None (0::nat) =
     Inl invalidOriginError
   \<and> errorMessage missingOriginError \<noteq> errorMessage invalidOriginError"
  using createAuthRouteHandlersFactory_origin [of None strictUtils oauthResources None "0::nat"]
        createAuthRouteHandlersFactory_origin
          [of "Some ''example.com''" strictUtils oauthResources None "0::nat"]
  by (simp add: strictUtils_def)

section \<open>Properties of DefaultAmplify.configure\<close>

text \<open>
  C10, as stated, fails on this input: with Auth options configured before and
  \<open>ssr\<close> given without Auth options, the three conditions do not all hold, and
  still the options handed to \<open>Amplify.configure\<close> are not the caller's: the
  credentials provider configured before is replaced with the Cognito one.
\<close>

theorem configure_replaces_credentials_provider:
  "\<not> installsDefaults oauthResources customAuthState ssrOptions
   \<and> configuredOptions (configure id customAuthState oauthResources ssrOptions) =
       Some \<lparr>ssr = Defined True,
             libAuth = Defined \<lparr>tokenProvider = Some (CustomTokenProvider 1),
                                credentialsProvider = Some CognitoCookieCredentialsProvider\<rparr>,
             otherOptions = []\<rparr>
   \<and> configuredOptions (configure id customAuthState oauthResources ssrOptions) \<noteq> ssrOptions
   \<and> libAuth (libraryOptions customAuthState) =
       Defined \<lparr>tokenProvider = Some (CustomTokenProvider 1),
                credentialsProvider = Some (CustomCredentialsProvider 2)\<rparr>"
  by (simp add: installsDefaults_def configure_def customAuthState_def ssrOptions_def
      oauthResources_def callerAuth_def resolvedCredentialsProvider_def
      resolvedKeyValueStorage_def ssrRequested_def withAuthUnder_def Let_def)

text \<open>
  C10, amended. The default Cognito token provider and credentials provider are both
  installed exactly when the resolved configuration has an Auth section, the caller
  passed no Auth options and none were configured before. With no Auth section, or with
  Auth options from the caller, the configuration is forwarded as it is. With Auth
  options configured before and options without Auth options from the caller: when
  \<open>ssr\<close> is given, the credentials provider of the Auth options configured before is
  replaced, in place, with the resolved Cognito one, and nothing is replaced when it is
  not; the caller's options are then forwarded with those Auth options added, unless they
  have an \<open>Auth\<close> key of their own holding \<open>undefined\<close>, and then they are forwarded
  as they are. With no options at all, none are forwarded.
\<close>

theorem configure_providers:
  "configuredResources (configure parse st resourceConfig lo) = parse resourceConfig
   \<and> (installsDefaults (parse resourceConfig) st lo \<longrightarrow>
        configuredOptions (configure parse st resourceConfig lo) =
          Some ((case lo of None \<Rightarrow> emptyLibraryOptions | Some l \<Rightarrow> l)
                  \<lparr>libAuth :=
                     Defined
                       \<lparr>tokenProvider = Some CognitoUserPoolsTokenProvider,
                        credentialsProvider = Some (resolvedCredentialsProvider lo)\<rparr>\<rparr>)
        \<and> stateAtConfigure (configure parse st resourceConfig lo) =
            st\<lparr>tokenProviderAuthConfig := Auth (parse resourceConfig),
               tokenProviderKeyValueStorage := Some (resolvedKeyValueStorage lo)\<rparr>)
   \<and> (Auth (parse resourceConfig) = None \<or> callerAuth lo \<noteq> None \<longrightarrow>
        configuredOptions (configure parse st resourceConfig lo) = lo
        \<and> stateAtConfigure (configure parse st resourceConfig lo) = st)
   \<and> (\<forall>previous l.
         Auth (parse resourceConfig) \<noteq> None \<and> callerAuth lo = None
         \<and> libAuth (libraryOptions st) = Defined previous \<and> lo = Some l \<longrightarrow>
         configuredOptions (configure parse st resourceConfig lo) =
           Some (if libAuth l = Absent
                 then l\<lparr>libAuth :=
                          Defined (if valueOf (ssr l) = None then previous
                                   else previous\<lparr>credentialsProvider :=
                                          Some (resolvedCredentialsProvider lo)\<rparr>)\<rparr>
                 else l)
         \<and> stateAtConfigure (configure parse st resourceConfig lo) =
             (if valueOf (ssr l) = None then st
              else st\<lparr>libraryOptions :=
                        (libraryOptions st)
                          \<lparr>libAuth :=
                             Defined (previous\<lparr>credentialsProvider :=
                                        Some (resolvedCredentialsProvider lo)\<rparr>)\<rparr>,
                      tokenProviderKeyValueStorage := Some (resolvedKeyValueStorage lo)\<rparr>))
   \<and> (Auth (parse resourceConfig) \<noteq> None \<and> valueOf (libAuth (libraryOptions st)) \<noteq> None
        \<and> lo = None \<longrightarrow>
        configuredOptions (configure parse st resourceConfig lo) = None
        \<and> stateAtConfigure (configure parse st resourceConfig lo) = st)"
proof -
  have branch4:
    "configuredOptions (configure parse st resourceConfig (Some l)) =
       Some (if libAuth l = Absent
             then l\<lparr>libAuth :=
                      Defined (if valueOf (ssr l) = None then previous
                               else previous\<lparr>credentialsProvider :=
                                      Some (resolvedCredentialsProvider (Some l))\<rparr>)\<rparr>
             else l)
     \<and> stateAtConfigure (configure parse st resourceConfig (Some l)) =
         (if valueOf (ssr l) = None then st
          else st\<lparr>libraryOptions :=
                    (libraryOptions st)
                      \<lparr>libAuth :=
                         Defined (previous\<lparr>credentialsProvider :=
                                    Some (resolvedCredentialsProvider (Some l))\<rparr>)\<rparr>,
                  tokenProviderKeyValueStorage := Some (resolvedKeyValueStorage (Some l))\<rparr>)"
    if "Auth (parse resourceConfig) \<noteq> None" and "callerAuth (Some l) = None"
      and "libAuth (libraryOptions st) = Defined previous"
    for previous l
    using that
    by (cases "libAuth l")
       (auto simp: configure_def callerAuth_def withAuthUnder_def Let_def)
  have others:
    "configuredResources (configure parse st resourceConfig lo) = parse resourceConfig
     \<and> (installsDefaults (parse resourceConfig) st lo \<longrightarrow>
          configuredOptions (configure parse st resourceConfig lo) =
            Some ((case lo of None \<Rightarrow> emptyLibraryOptions | Some l \<Rightarrow> l)
                    \<lparr>libAuth :=
                       Defined
                         \<lparr>tokenProvider = Some CognitoUserPoolsTokenProvider,
                          credentialsProvider = Some (resolvedCredentialsProvider lo)\<rparr>\<rparr>)
          \<and> stateAtConfigure (configure parse st resourceConfig lo) =
              st\<lparr>tokenProviderAuthConfig := Auth (parse resourceConfig),
                 tokenProviderKeyValueStorage := Some (resolvedKeyValueStorage lo)\<rparr>)
     \<and> (Auth (parse resourceConfig) = None \<or> callerAuth lo \<noteq> None \<longrightarrow>
          configuredOptions (configure parse st resourceConfig lo) = lo
          \<and> stateAtConfigure (configure parse st resourceConfig lo) = st)
     \<and> (Auth (parse resourceConfig) \<noteq> None \<and> valueOf (libAuth (libraryOptions st)) \<noteq> None
          \<and> lo = None \<longrightarrow>
          configuredOptions (configure parse st resourceConfig lo) = None
          \<and> stateAtConfigure (configure parse st resourceConfig lo) = st)"
    by (auto simp: configure_def installsDefaults_def callerAuth_def Let_def
        split: option.splits)
  have c4:
    "\<forall>previous l.
       Auth (parse resourceConfig) \<noteq> None \<and> callerAuth lo = None
       \<and> libAuth (libraryOptions st) = Defined previous \<and> lo = Some l \<longrightarrow>
       configuredOptions (configure parse st resourceConfig lo) =
         Some (if libAuth l = Absent
               then l\<lparr>libAuth :=
                        Defined (if valueOf (ssr l) = None then previous
                                 else previous\<lparr>credentialsProvider :=
                                        Some (resolvedCredentialsProvider lo)\<rparr>)\<rparr>
               else l)
       \<and> stateAtConfigure (configure parse st resourceConfig lo) =
           (if valueOf (ssr l) = None then st
            else st\<lparr>libraryOptions :=
                      (libraryOptions st)
                        \<lparr>libAuth :=
                           Defined (previous\<lparr>credentialsProvider :=
                                      Some (resolvedCredentialsProvider lo)\<rparr>)\<rparr>,
                    tokenProviderKeyValueStorage := Some (resolvedKeyValueStorage lo)\<rparr>)"
  proof (intro allI impI)
    fix previous l
    assume a: "Auth (parse resourceConfig) \<noteq> None \<and> callerAuth lo = None
               \<and> libAuth (libraryOptions st) = Defined previous \<and> lo = Some l"
    then have lo: "lo = Some l"
      by simp
    from a show "configuredOptions (configure parse st resourceConfig lo) =
         Some (if libAuth l = Absent
               then l\<lparr>libAuth :=
                        Defined (if valueOf (ssr l) = None then previous
                                 else previous\<lparr>credentialsProvider :=
                                        Some (resolvedCredentialsProvider lo)\<rparr>)\<rparr>
               else l)
       \<and> stateAtConfigure (configure parse st resourceConfig lo) =
           (if valueOf (ssr l) = None then st
            else st\<lparr>libraryOptions :=
                      (libraryOptions st)
                        \<lparr>libAuth :=
                           Defined (previous\<lparr>credentialsProvider :=
                                      Some (resolvedCredentialsProvider lo)\<rparr>)\<rparr>,
                    tokenProviderKeyValueStorage := Some (resolvedKeyValueStorage lo)\<rparr>)"
      unfolding lo by (intro branch4) simp_all
  qed
  from others c4 show ?thesis
    by simp
qed

theorem configure_providers_witness:
  "configuredOptions (configure id freshState oauthResources ssrOptions) =
     Some \<lparr>ssr = Defined True,
           libAuth = Defined \<lparr>tokenProvider = Some CognitoUserPoolsTokenProvider,
                              credentialsProvider = Some CognitoCookieCredentialsProvider\<rparr>,
           otherOptions = []\<rparr>
   \<and> configuredOptions (configure id customAuthState oauthResources None) = None
   \<and> configuredOptions (configure id customAuthState oauthResources ssrOptions) =
     Some \<lparr>ssr = Defined True,
           libAuth = Defined \<lparr>tokenProvider = Some (CustomTokenProvider 1),
                              credentialsProvider = Some CognitoCookieCredentialsProvider\<rparr>,
           otherOptions = []\<rparr>
   \<and> configuredOptions (configure id customAuthState oauthResources undefinedAuthOptions) =
       undefinedAuthOptions"
  using configure_providers [of id freshState oauthResources ssrOptions]
        configure_providers [of id customAuthState oauthResources None]
        configure_providers [of id customAuthState oauthResources ssrOptions]
        configure_providers [of id customAuthState oauthResources undefinedAuthOptions]
  by (simp add: installsDefaults_def freshState_def emptyLibraryOptions_def oauthResources_def
      ssrOptions_def undefinedAuthOptions_def callerAuth_def customAuthState_def
      resolvedCredentialsProvider_def ssrRequested_def)

end
